theory Spec2Isabelle
  imports Complex_Main "HOL-Library.Multiset" "HOL-Library.Word"
begin

section \<open>Values, exceptions and collaborators\<close>

text \<open>
  The development embeds the row pipeline of \<^verbatim>\<open>AI_Engine/llm\<close>:
  \<^verbatim>\<open>cleaning.py\<close> (\<^verbatim>\<open>process_row\<close>, \<^verbatim>\<open>_parse_suggestion\<close>),
  \<^verbatim>\<open>rag.py\<close> (\<^verbatim>\<open>compute_cosine_similarity\<close>, \<^verbatim>\<open>retrieve_similar\<close>),
  \<^verbatim>\<open>embeddings.py\<close> (\<^verbatim>\<open>generate_embedding\<close>, \<^verbatim>\<open>save_embedding\<close>) and
  \<^verbatim>\<open>llm.py\<close> (\<^verbatim>\<open>generate_cleaning_suggestion\<close>).

  Conventions of the model:
  \<^item> a Python value that \<^verbatim>\<open>json\<close> can carry is a \<open>json\<close> term; a \<^verbatim>\<open>dict\<close> is an
    association list in insertion order (its keys are distinct);
  \<^item> a Python \<^verbatim>\<open>float\<close> is idealised as a \<open>real\<close>: rounding, infinities and NaN are
    outside the model;
  \<^item> a character is a code point below 256;
  \<^item> a raised exception is the \<open>Inl\<close> of a sum, and every \<^verbatim>\<open>try\<close>/\<^verbatim>\<open>except\<close> of the
    source is a case distinction on it;
  \<^item> the two tables and the trace of collaborator calls and of \<^verbatim>\<open>logger.error\<close> calls
    form the \<open>world\<close>, passed through every function that touches them
    (\<^verbatim>\<open>logger.info\<close>, \<^verbatim>\<open>logger.debug\<close> and \<^verbatim>\<open>logger.warning\<close> are not traced);
  \<^item> what lives outside the repository (the sentence-transformer, the Gemini client,
    \<^verbatim>\<open>json.loads\<close>, \<^verbatim>\<open>float.__repr__\<close>, the outcome of a database commit or query) is a
    field of the record \<open>env\<close>.
\<close>

datatype json =
    JNull
  | JBool bool
  | JInt int
  | JFloat real
  | JString string
  | JArray "json list"
  | JObject "(string \<times> json) list"

datatype exn =
    JSONDecodeError
  | ValueError
  | AttributeError
  | CollaboratorError string

text \<open>\<^verbatim>\<open>models.py\<close>: the rows of \<^verbatim>\<open>tenant_embeddings\<close> and \<^verbatim>\<open>cleaning_results\<close>
  (\<^verbatim>\<open>created_at\<close> is filled by the server and read by no code; it is left out).\<close>

record tenant_embedding =
  te_id :: nat
  te_tenant_id :: string
  te_content :: string
  te_embedding :: "real list"

record cleaning_result =
  cr_id :: nat
  cr_tenant_id :: string
  cr_dataset_id :: "128 word"
  cr_row_data :: "(string \<times> json) list"
  cr_ai_suggestion :: json
  cr_confidence :: json
  cr_status :: string

datatype event =
    EncodeCall string
  | GenerateCall string
  | ErrorLogged string exn

record world =
  tenant_embeddings :: "tenant_embedding list"
  cleaning_results :: "cleaning_result list"
  events :: "event list"

record env =
  model_encode :: "string \<Rightarrow> exn + real list"
  generate_content :: "string \<Rightarrow> exn + string"
  json_loads :: "string \<Rightarrow> exn + json"
  float_repr :: "real \<Rightarrow> string"
  embedding_commit_fault :: "exn option"
  embedding_query_fault :: "exn option"
  result_commit_fault :: "exn option"

definition log_error :: "string \<Rightarrow> exn \<Rightarrow> world \<Rightarrow> world" where
  "log_error logger e w = w\<lparr>events := events w @ [ErrorLogged logger e]\<rparr>"

section \<open>Serialisation: \<^verbatim>\<open>json.dumps(row, indent=2)\<close>\<close>

text \<open>The encoder of the standard library with \<^verbatim>\<open>indent=2\<close>, \<^verbatim>\<open>ensure_ascii=True\<close> and
  no \<^verbatim>\<open>sort_keys\<close>, as \<^verbatim>\<open>process_row\<close> calls it: items in the dict's own order, one per
  line, \<^verbatim>\<open>','\<close> between items and \<^verbatim>\<open>': '\<close> after a key.\<close>

fun nat_digits :: "nat \<Rightarrow> string" where
  "nat_digits n =
     (if n < 10 then [''0123456789'' ! n]
      else nat_digits (n div 10) @ [''0123456789'' ! (n mod 10)])"

definition int_repr :: "int \<Rightarrow> string" where
  "int_repr i = (if i < 0 then CHR ''-'' # nat_digits (nat (- i)) else nat_digits (nat i))"

definition hex_digit :: "nat \<Rightarrow> char" where
  "hex_digit n = ''0123456789abcdef'' ! n"

definition escape_char :: "char \<Rightarrow> string" where
  "escape_char c =
     (if c = CHR 0x5C then [CHR 0x5C, CHR 0x5C]
      else if c = CHR 0x22 then [CHR 0x5C, CHR 0x22]
      else if c = CHR 0x08 then [CHR 0x5C, CHR ''b'']
      else if c = CHR 0x0C then [CHR 0x5C, CHR ''f'']
      else if c = CHR 0x0A then [CHR 0x5C, CHR ''n'']
      else if c = CHR 0x0D then [CHR 0x5C, CHR ''r'']
      else if c = CHR 0x09 then [CHR 0x5C, CHR ''t'']
      else if (of_char c :: nat) < 0x20 \<or> 0x7E < (of_char c :: nat)
        then [CHR 0x5C, CHR ''u'', CHR ''0'', CHR ''0'',
              hex_digit (of_char c div 16), hex_digit (of_char c mod 16)]
      else [c])"

definition encode_basestring_ascii :: "string \<Rightarrow> string" where
  "encode_basestring_ascii s = CHR 0x22 # concat (map escape_char s) @ [CHR 0x22]"

definition newline_indent :: "nat \<Rightarrow> string" where
  "newline_indent level = CHR 0x0A # replicate (2 * level) CHR '' ''"

fun str_join :: "string \<Rightarrow> string list \<Rightarrow> string" where
  "str_join sep [] = []"
| "str_join sep [x] = x"
| "str_join sep (x # y # ys) = x @ sep @ str_join sep (y # ys)"

fun iterencode :: "(real \<Rightarrow> string) \<Rightarrow> nat \<Rightarrow> json \<Rightarrow> string" where
  "iterencode fr level JNull = ''null''"
| "iterencode fr level (JBool b) = (if b then ''true'' else ''false'')"
| "iterencode fr level (JInt i) = int_repr i"
| "iterencode fr level (JFloat x) = fr x"
| "iterencode fr level (JString s) = encode_basestring_ascii s"
| "iterencode fr level (JArray lst) =
     (if lst = [] then ''[]''
      else ''['' @ newline_indent (Suc level)
        @ str_join ('','' @ newline_indent (Suc level)) (map (iterencode fr (Suc level)) lst)
        @ newline_indent level @ '']'')"
| "iterencode fr level (JObject dct) =
     (if dct = [] then ''{}''
      else ''{'' @ newline_indent (Suc level)
        @ str_join ('','' @ newline_indent (Suc level))
            (map (\<lambda>kv. encode_basestring_ascii (fst kv) @ '': ''
                          @ iterencode fr (Suc level) (snd kv)) dct)
        @ newline_indent level @ ''}'')"

definition json_dumps :: "(real \<Rightarrow> string) \<Rightarrow> (string \<times> json) list \<Rightarrow> string" where
  "json_dumps fr row = iterencode fr 0 (JObject row)"

section \<open>\<^verbatim>\<open>rag.py\<close>: similarity and retrieval\<close>

text \<open>\<^verbatim>\<open>np.linalg.norm\<close> and \<^verbatim>\<open>np.dot\<close> on one-dimensional arrays. \<^verbatim>\<open>np.dot\<close> raises
  \<^verbatim>\<open>ValueError\<close> when the two shapes differ; dividing an array by a scalar never raises.\<close>

definition linalg_norm :: "real list \<Rightarrow> real" where
  "linalg_norm arr = sqrt (sum_list (map (\<lambda>x. x * x) arr))"

definition np_dot :: "real list \<Rightarrow> real list \<Rightarrow> exn + real" where
  "np_dot a b =
     (if length a = length b then Inr (sum_list (map2 (*) a b)) else Inl ValueError)"

definition compute_cosine_similarity :: "real list \<Rightarrow> real list \<Rightarrow> exn + real" where
  "compute_cosine_similarity vec1 vec2 =
     (let arr1_norm = map (\<lambda>x. x / (linalg_norm vec1 + 1 / 10 ^ 8)) vec1;
          arr2_norm = map (\<lambda>x. x / (linalg_norm vec2 + 1 / 10 ^ 8)) vec2
      in np_dot arr1_norm arr2_norm)"

text \<open>The query of \<^verbatim>\<open>retrieve_similar\<close>: the \<^verbatim>\<open>(content, embedding)\<close> columns of the rows
  whose \<^verbatim>\<open>tenant_id\<close> is the caller's, in table order.\<close>

definition tenant_scan :: "world \<Rightarrow> string \<Rightarrow> (string \<times> real list) list" where
  "tenant_scan w tenant_id =
     map (\<lambda>r. (te_content r, te_embedding r))
       (filter (\<lambda>r. te_tenant_id r = tenant_id) (tenant_embeddings w))"

text \<open>The \<^verbatim>\<open>for\<close> loop that fills \<^verbatim>\<open>similarities\<close>: the first pair whose similarity
  raises ends the loop with that exception.\<close>

fun similarities :: "real list \<Rightarrow> (string \<times> real list) list \<Rightarrow> exn + (string \<times> real) list" where
  "similarities embedding [] = Inr []"
| "similarities embedding ((content, db_embedding) # rest) =
     (case compute_cosine_similarity embedding db_embedding of
        Inl e \<Rightarrow> Inl e
      | Inr similarity \<Rightarrow>
          (case similarities embedding rest of
             Inl e \<Rightarrow> Inl e
           | Inr sims \<Rightarrow> Inr ((content, similarity) # sims)))"

text \<open>\<^verbatim>\<open>list.sort(key=lambda x: x[1], reverse=True)\<close>: a stable sort, descending in the
  key. \<^verbatim>\<open>xs[:k]\<close>: a negative \<open>k\<close> counts from the end.\<close>

definition sort_reverse :: "(string \<times> real) list \<Rightarrow> (string \<times> real) list" where
  "sort_reverse xs = sort_key (\<lambda>x. - snd x) xs"

definition slice_to :: "'a list \<Rightarrow> int \<Rightarrow> 'a list" where
  "slice_to xs k = (if 0 \<le> k then take (nat k) xs else take (nat (int (length xs) + k)) xs)"

text \<open>The body of the \<^verbatim>\<open>try\<close> block of \<^verbatim>\<open>retrieve_similar\<close>, and the function with its
  \<^verbatim>\<open>except Exception\<close> handler, which logs and returns the empty list.\<close>

definition retrieve_similar_try :: "env \<Rightarrow> world \<Rightarrow> string \<Rightarrow> real list \<Rightarrow> int \<Rightarrow> exn + string list" where
  "retrieve_similar_try env w tenant_id embedding top_k =
     (case embedding_query_fault env of
        Some e \<Rightarrow> Inl e
      | None \<Rightarrow>
          (let all_embeddings = tenant_scan w tenant_id in
           if all_embeddings = [] then Inr []
           else (case similarities embedding all_embeddings of
                   Inl e \<Rightarrow> Inl e
                 | Inr sims \<Rightarrow> Inr (map fst (slice_to (sort_reverse sims) top_k)))))"

definition retrieve_similar :: "env \<Rightarrow> world \<Rightarrow> string \<Rightarrow> real list \<Rightarrow> int \<Rightarrow> (exn + string list) \<times> world" where
  "retrieve_similar env w tenant_id embedding top_k =
     (case retrieve_similar_try env w tenant_id embedding top_k of
        Inl e \<Rightarrow> (Inr [], log_error ''retrieve_similar'' e w)
      | Inr contents \<Rightarrow> (Inr contents, w))"

section \<open>\<^verbatim>\<open>embeddings.py\<close>\<close>

definition generate_embedding :: "env \<Rightarrow> world \<Rightarrow> string \<Rightarrow> (exn + real list) \<times> world" where
  "generate_embedding env w text =
     (let w1 = w\<lparr>events := events w @ [EncodeCall text]\<rparr> in
      case model_encode env text of
        Inl e \<Rightarrow> (Inl e, log_error ''generate_embedding'' e w1)
      | Inr embedding \<Rightarrow> (Inr embedding, w1))"

text \<open>\<^verbatim>\<open>save_embedding\<close> has a \<^verbatim>\<open>finally\<close> and no \<^verbatim>\<open>except\<close>: a failed commit leaves the
  table as it was and the exception goes to the caller. The key is the next of the
  table's sequence.\<close>

definition save_embedding :: "env \<Rightarrow> world \<Rightarrow> string \<Rightarrow> string \<Rightarrow> real list \<Rightarrow> (exn + tenant_embedding) \<times> world" where
  "save_embedding env w tenant_id content embedding =
     (case embedding_commit_fault env of
        Some e \<Rightarrow> (Inl e, w)
      | None \<Rightarrow>
          (let embedding_record =
                 \<lparr>te_id = Suc (length (tenant_embeddings w)), te_tenant_id = tenant_id,
                  te_content = content, te_embedding = embedding\<rparr>
           in (Inr embedding_record,
               w\<lparr>tenant_embeddings := tenant_embeddings w @ [embedding_record]\<rparr>)))"

section \<open>\<^verbatim>\<open>llm.py\<close>\<close>

text \<open>The f-string \<^verbatim>\<open>user_message\<close>, with \<^verbatim>\<open>context\<close> and \<^verbatim>\<open>row_data\<close> in their places.\<close>

definition user_message :: "string \<Rightarrow> string \<Rightarrow> string" where
  \<open>user_message context row_data =
     ''You are a data cleaning expert. Analyze the following data row and provide cleaning suggestions.\<newline>\<newline>## Context (similar previous rows):\<newline>''
     @ context @
     ''\<newline>\<newline>## Row to Clean:\<newline>''
     @ row_data @
     ''\<newline>\<newline>Provide your response as a JSON object with EXACTLY this structure (no markdown, just raw JSON):\<newline>{\<newline>  "field": "name of the field with issues (if any)",\<newline>  "issue_type": "type of issue (missing, invalid_format, inconsistent, etc.)",\<newline>  "suggested_fix": "specific suggestion to fix the issue",\<newline>  "confidence": 0.85,\<newline>  "notes": "any additional notes"\<newline>}\<newline>\<newline>If there are no issues, still return JSON with field "status" set to "clean".''\<close>

text \<open>\<^verbatim>\<open>generate_cleaning_suggestion\<close> never raises: a failed call is logged and answered
  with a canned JSON text.\<close>

definition generate_cleaning_suggestion :: "env \<Rightarrow> world \<Rightarrow> string \<Rightarrow> string \<Rightarrow> string \<times> world" where
  \<open>generate_cleaning_suggestion env w context row_data =
     (let w1 = w\<lparr>events := events w @ [GenerateCall (user_message context row_data)]\<rparr> in
      case generate_content env (user_message context row_data) of
        Inr response_text \<Rightarrow> (response_text, w1)
      | Inl e \<Rightarrow>
          (''{"status": "error", "message": "LLM API call failed"}'',
           log_error ''generate_cleaning_suggestion'' e w1))\<close>

section \<open>\<^verbatim>\<open>cleaning.py\<close>\<close>

text \<open>\<^verbatim>\<open>str.find\<close> and \<^verbatim>\<open>str.rfind\<close> of one character (\<open>-1\<close> when it is absent), and the
  slice \<^verbatim>\<open>s[start:stop]\<close> for the indices the guard of \<^verbatim>\<open>_parse_suggestion\<close> lets
  through (\<open>0 \<le> start < stop\<close>).\<close>

fun str_find :: "string \<Rightarrow> char \<Rightarrow> int" where
  "str_find [] c = - 1"
| "str_find (x # xs) c =
     (if x = c then 0 else (let i = str_find xs c in if i < 0 then - 1 else i + 1))"

definition str_rfind :: "string \<Rightarrow> char \<Rightarrow> int" where
  "str_rfind s c =
     (let i = str_find (rev s) c in if i < 0 then - 1 else int (length s) - 1 - i)"

definition str_slice :: "string \<Rightarrow> int \<Rightarrow> int \<Rightarrow> string" where
  "str_slice s start stop = take (nat stop - nat start) (drop (nat start) s)"

definition fallback :: "string \<Rightarrow> json" where
  "fallback suggestion_text =
     JObject [(''status'', JString ''error''),
              (''message'', JString ''Could not parse LLM response''),
              (''raw_response'', JString suggestion_text)]"

text \<open>\<^verbatim>\<open>_parse_suggestion\<close>. The outer handler is \<^verbatim>\<open>except json.JSONDecodeError\<close>: any
  other exception of the first \<^verbatim>\<open>json.loads\<close> leaves the function. The inner handler is
  \<^verbatim>\<open>except Exception: pass\<close>.\<close>

definition parse_suggestion :: "env \<Rightarrow> string \<Rightarrow> exn + json" where
  "parse_suggestion env suggestion_text =
     (case json_loads env suggestion_text of
        Inr v \<Rightarrow> Inr v
      | Inl e \<Rightarrow>
          if e \<noteq> JSONDecodeError then Inl e
          else
            (let start = str_find suggestion_text CHR ''{'';
                 stop = str_rfind suggestion_text CHR ''}'' + 1
             in if 0 \<le> start \<and> start < stop
                then (case json_loads env (str_slice suggestion_text start stop) of
                        Inr v \<Rightarrow> Inr v
                      | Inl _ \<Rightarrow> Inr (fallback suggestion_text))
                else Inr (fallback suggestion_text)))"

text \<open>\<^verbatim>\<open>suggestion_json.get("confidence", None)\<close>: only a \<^verbatim>\<open>dict\<close> has \<^verbatim>\<open>get\<close>; on any
  other value the attribute lookup raises \<^verbatim>\<open>AttributeError\<close>. Python's \<^verbatim>\<open>None\<close> is
  \<open>JNull\<close>.\<close>

definition dict_get :: "json \<Rightarrow> string \<Rightarrow> exn + json" where
  "dict_get v key =
     (case v of
        JObject dct \<Rightarrow> Inr (case map_of dct key of None \<Rightarrow> JNull | Some x \<Rightarrow> x)
      | _ \<Rightarrow> Inl AttributeError)"

record process_result =
  pr_id :: nat
  pr_status :: string
  pr_suggestion :: json

text \<open>The body of the \<^verbatim>\<open>try\<close> block of \<^verbatim>\<open>process_row\<close>, step by step, and the function
  with its handler, which logs and raises again.\<close>

definition process_row_try :: "env \<Rightarrow> world \<Rightarrow> string \<Rightarrow> 128 word \<Rightarrow> (string \<times> json) list \<Rightarrow> (exn + process_result) \<times> world" where
  "process_row_try env w tenant_id dataset_id row =
     (let text_representation = json_dumps (float_repr env) row in
      case generate_embedding env w text_representation of
        (Inl e, w1) \<Rightarrow> (Inl e, w1)
      | (Inr embedding, w1) \<Rightarrow>
      (case save_embedding env w1 tenant_id text_representation embedding of
        (Inl e, w2) \<Rightarrow> (Inl e, w2)
      | (Inr _, w2) \<Rightarrow>
      (case retrieve_similar env w2 tenant_id embedding 3 of
        (Inl e, w3) \<Rightarrow> (Inl e, w3)
      | (Inr context_docs, w3) \<Rightarrow>
      (let context =
             (if context_docs \<noteq> [] then str_join ''\<newline>---\<newline>'' context_docs
              else ''No previous examples available.'')
       in case generate_cleaning_suggestion env w3 context text_representation of
        (suggestion_text, w4) \<Rightarrow>
      (case parse_suggestion env suggestion_text of
        Inl e \<Rightarrow> (Inl e, w4)
      | Inr suggestion_json \<Rightarrow>
      (case dict_get suggestion_json ''confidence'' of
        Inl e \<Rightarrow> (Inl e, w4)
      | Inr confidence \<Rightarrow>
      (case result_commit_fault env of
        Some e \<Rightarrow> (Inl e, w4)
      | None \<Rightarrow>
          (let cleaning_record =
                 \<lparr>cr_id = Suc (length (cleaning_results w4)), cr_tenant_id = tenant_id,
                  cr_dataset_id = dataset_id, cr_row_data = row,
                  cr_ai_suggestion = suggestion_json, cr_confidence = confidence,
                  cr_status = ''processed''\<rparr>
           in (Inr \<lparr>pr_id = cr_id cleaning_record, pr_status = cr_status cleaning_record,
                    pr_suggestion = suggestion_json\<rparr>,
               w4\<lparr>cleaning_results := cleaning_results w4 @ [cleaning_record]\<rparr>)))))))))"

definition process_row :: "env \<Rightarrow> world \<Rightarrow> string \<Rightarrow> 128 word \<Rightarrow> (string \<times> json) list \<Rightarrow> (exn + process_result) \<times> world" where
  "process_row env w tenant_id dataset_id row =
     (case process_row_try env w tenant_id dataset_id row of
        (Inl e, w') \<Rightarrow> (Inl e, log_error ''process_row'' e w')
      | (Inr result, w') \<Rightarrow> (Inr result, w'))"

section \<open>The similarity of the design, and closed examples\<close>

text \<open>The similarity as the design document writes it: the dot product over the product
  of the two norms, each norm with \<open>1e-8\<close> added. It is compared below with what
  \<^verbatim>\<open>compute_cosine_similarity\<close> computes.\<close>

definition spec_sim :: "real list \<Rightarrow> real list \<Rightarrow> real" where
  "spec_sim q v =
     sum_list (map2 (*) q v) / ((linalg_norm q + 1 / 10 ^ 8) * (linalg_norm v + 1 / 10 ^ 8))"



text \<open>Collaborators for the closed examples: a decoder that knows the documents of a
  table and raises \<^verbatim>\<open>JSONDecodeError\<close> on every other text, an embedding model that
  answers every text with the same vector, and a generator with one reply.\<close>

definition loads_table :: "(string \<times> json) list \<Rightarrow> string \<Rightarrow> exn + json" where
  "loads_table tbl s = (case map_of tbl s of Some v \<Rightarrow> Inr v | None \<Rightarrow> Inl JSONDecodeError)"

definition scenario_row :: "(string \<times> json) list" where
  "scenario_row = [(''name'', JString ''Jon''), (''age'', JString [])]"

definition scenario_reply :: string where
  \<open>scenario_reply =
     ''{"field":"age","issue_type":"missing","suggested_fix":"impute median","confidence":0.9}''\<close>

definition scenario_suggestion :: json where
  "scenario_suggestion =
     JObject [(''field'', JString ''age''), (''issue_type'', JString ''missing''),
              (''suggested_fix'', JString ''impute median''), (''confidence'', JFloat (9 / 10))]"

definition scenario_env :: env where
  "scenario_env =
     \<lparr>model_encode = (\<lambda>_. Inr [1, 0]),
      generate_content = (\<lambda>_. Inr scenario_reply),
      json_loads = loads_table [(scenario_reply, scenario_suggestion), (''42'', JInt 42)],
      float_repr = (\<lambda>_. ''0.9''),
      embedding_commit_fault = None,
      embedding_query_fault = None,
      result_commit_fault = None\<rparr>"

definition empty_world :: world where
  "empty_world = \<lparr>tenant_embeddings = [], cleaning_results = [], events = []\<rparr>"

definition stored_world :: world where
  "stored_world =
     \<lparr>tenant_embeddings =
        [\<lparr>te_id = 1, te_tenant_id = ''t1'', te_content = ''a'', te_embedding = [0, 1]\<rparr>,
         \<lparr>te_id = 2, te_tenant_id = ''t2'', te_content = ''x'', te_embedding = [1, 0, 0]\<rparr>,
         \<lparr>te_id = 3, te_tenant_id = ''t1'', te_content = ''b'', te_embedding = [1, 0]\<rparr>,
         \<lparr>te_id = 4, te_tenant_id = ''t1'', te_content = ''c'', te_embedding = [0, 1]\<rparr>,
         \<lparr>te_id = 5, te_tenant_id = ''t1'', te_content = ''d'', te_embedding = [1, 0]\<rparr>],
      cleaning_results = [],
      events = []\<rparr>"

definition other_tenants_changed :: world where
  "other_tenants_changed =
     \<lparr>tenant_embeddings =
        [\<lparr>te_id = 6, te_tenant_id = ''t3'', te_content = ''y'', te_embedding = [1, 0]\<rparr>,
         \<lparr>te_id = 1, te_tenant_id = ''t1'', te_content = ''a'', te_embedding = [0, 1]\<rparr>,
         \<lparr>te_id = 3, te_tenant_id = ''t1'', te_content = ''b'', te_embedding = [1, 0]\<rparr>,
         \<lparr>te_id = 2, te_tenant_id = ''t2'', te_content = ''z'', te_embedding = [5]\<rparr>,
         \<lparr>te_id = 4, te_tenant_id = ''t1'', te_content = ''c'', te_embedding = [0, 1]\<rparr>,
         \<lparr>te_id = 5, te_tenant_id = ''t1'', te_content = ''d'', te_embedding = [1, 0]\<rparr>],
      cleaning_results = [],
      events = []\<rparr>"

definition failing_encoder_env :: env where
  "failing_encoder_env =
     scenario_env\<lparr>model_encode := (\<lambda>_. Inl (CollaboratorError ''encoder unavailable''))\<rparr>"

definition failing_append_env :: env where
  "failing_append_env =
     scenario_env\<lparr>embedding_commit_fault := Some (CollaboratorError ''storage unavailable'')\<rparr>"


definition bare_number_env :: env where
  "bare_number_env = scenario_env\<lparr>generate_content := (\<lambda>_. Inr ''42'')\<rparr>"



section \<open>Properties of the pipeline\<close>

subsection \<open>A failed embedding\<close>

text \<open>
  Claim C8. For every row, when the embedding model raises, \<^verbatim>\<open>process_row\<close> raises the
  same exception to its caller. The model is called once (one \<open>EncodeCall\<close> in the
  trace: no retry), the failure is logged by \<^verbatim>\<open>generate_embedding\<close> and by
  \<^verbatim>\<open>process_row\<close>, and neither table changes: no cleaning result is written.
\<close>

theorem process_row_embedding_failure:
  assumes "model_encode env (json_dumps (float_repr env) row) = Inl e"
  shows "fst (process_row env w tenant_id dataset_id row) = Inl e
       \<and> cleaning_results (snd (process_row env w tenant_id dataset_id row)) = cleaning_results w
       \<and> tenant_embeddings (snd (process_row env w tenant_id dataset_id row)) = tenant_embeddings w
       \<and> events (snd (process_row env w tenant_id dataset_id row)) =
           events w @ [EncodeCall (json_dumps (float_repr env) row),
                       ErrorLogged ''generate_embedding'' e,
                       ErrorLogged ''process_row'' e]"
  using assms
  by (simp add: process_row_def process_row_try_def generate_embedding_def log_error_def)

theorem process_row_embedding_failure_witness:
  "model_encode failing_encoder_env (json_dumps (float_repr failing_encoder_env) scenario_row)
     = Inl (CollaboratorError ''encoder unavailable'')
   \<and> fst (process_row failing_encoder_env empty_world ''t1'' 7 scenario_row)
     = Inl (CollaboratorError ''encoder unavailable'')
   \<and> cleaning_results (snd (process_row failing_encoder_env empty_world ''t1'' 7 scenario_row)) = []
   \<and> tenant_embeddings (snd (process_row failing_encoder_env empty_world ''t1'' 7 scenario_row)) = []
   \<and> events (snd (process_row failing_encoder_env empty_world ''t1'' 7 scenario_row)) =
        [EncodeCall (json_dumps (float_repr failing_encoder_env) scenario_row),
         ErrorLogged ''generate_embedding'' (CollaboratorError ''encoder unavailable''),
         ErrorLogged ''process_row'' (CollaboratorError ''encoder unavailable'')]"
proof -
  have h: "model_encode failing_encoder_env (json_dumps (float_repr failing_encoder_env) scenario_row)
     = Inl (CollaboratorError ''encoder unavailable'')"
    by (simp add: failing_encoder_env_def scenario_env_def)
  show ?thesis
    using h process_row_embedding_failure [OF h, of empty_world "''t1''" 7]
    by (simp add: empty_world_def)
qed

subsection \<open>A failed append to the vector store\<close>

text \<open>
  Claim C2, as amended. \<^verbatim>\<open>process_row\<close> calls \<^verbatim>\<open>save_embedding\<close> inside its one
  \<^verbatim>\<open>try\<close> block, with no handler of its own around the call. When the commit of the
  embedding fails, the exception reaches the handler of \<^verbatim>\<open>process_row\<close>, which logs it
  and raises it again: the caller gets the exception and no result, the generator is
  never called (no \<open>GenerateCall\<close> in the trace) and neither table changes.
  The counterexample is the scenario row with a vector store that is unavailable.
\<close>

theorem process_row_append_failure:
  assumes "model_encode env (json_dumps (float_repr env) row) = Inr v"
    and "embedding_commit_fault env = Some e"
  shows "fst (process_row env w tenant_id dataset_id row) = Inl e
       \<and> cleaning_results (snd (process_row env w tenant_id dataset_id row)) = cleaning_results w
       \<and> tenant_embeddings (snd (process_row env w tenant_id dataset_id row)) = tenant_embeddings w
       \<and> events (snd (process_row env w tenant_id dataset_id row)) =
           events w @ [EncodeCall (json_dumps (float_repr env) row),
                       ErrorLogged ''process_row'' e]"
  using assms
  by (simp add: process_row_def process_row_try_def generate_embedding_def save_embedding_def
        log_error_def)

theorem process_row_append_failure_witness:
  "model_encode failing_append_env (json_dumps (float_repr failing_append_env) scenario_row)
     = Inr [1, 0]
   \<and> embedding_commit_fault failing_append_env = Some (CollaboratorError ''storage unavailable'')
   \<and> fst (process_row failing_append_env stored_world ''t2'' 7 scenario_row)
     = Inl (CollaboratorError ''storage unavailable'')
   \<and> cleaning_results (snd (process_row failing_append_env stored_world ''t2'' 7 scenario_row))
     = cleaning_results stored_world
   \<and> tenant_embeddings (snd (process_row failing_append_env stored_world ''t2'' 7 scenario_row))
     = tenant_embeddings stored_world
   \<and> events (snd (process_row failing_append_env stored_world ''t2'' 7 scenario_row)) =
        events stored_world
        @ [EncodeCall (json_dumps (float_repr failing_append_env) scenario_row),
           ErrorLogged ''process_row'' (CollaboratorError ''storage unavailable'')]"
proof -
  have h1: "model_encode failing_append_env
      (json_dumps (float_repr failing_append_env) scenario_row) = Inr [1, 0]"
    by (simp add: failing_append_env_def scenario_env_def)
  have h2: "embedding_commit_fault failing_append_env
      = Some (CollaboratorError ''storage unavailable'')"
    by (simp add: failing_append_env_def scenario_env_def)
  show ?thesis
    using h1 h2 process_row_append_failure [OF h1 h2, of stored_world "''t2''" 7]
    by simp
qed

theorem process_row_append_failure_counterexample:
  "fst (process_row failing_append_env empty_world ''t1'' 7 scenario_row)
     = Inl (CollaboratorError ''storage unavailable'')
   \<and> cleaning_results (snd (process_row failing_append_env empty_world ''t1'' 7 scenario_row)) = []
   \<and> events (snd (process_row failing_append_env empty_world ''t1'' 7 scenario_row)) =
        [EncodeCall (json_dumps (float_repr failing_append_env) scenario_row),
         ErrorLogged ''process_row'' (CollaboratorError ''storage unavailable'')]"
  by (simp add: process_row_def process_row_try_def generate_embedding_def save_embedding_def
        log_error_def failing_append_env_def scenario_env_def empty_world_def)

subsection \<open>The normalizer on text that parses\<close>



text \<open>What \<^verbatim>\<open>retrieve_similar\<close> leaves alone: it never raises, and it changes neither
  table. A \<^verbatim>\<open>get\<close> is defined on dicts only.\<close>

lemma retrieve_similar_frame:
  "\<exists>contents w'. retrieve_similar env w tenant_id embedding top_k = (Inr contents, w')
     \<and> cleaning_results w' = cleaning_results w
     \<and> tenant_embeddings w' = tenant_embeddings w"
  by (simp add: retrieve_similar_def log_error_def split: sum.splits)

lemma dict_get_defined_iff:
  "(\<exists>c. dict_get u key = Inr c) = (\<exists>dct. u = JObject dct)"
  by (cases u) (simp_all add: dict_get_def)

text \<open>
  Claim C10. When the whole text parses as JSON to a value that is not an object (a bare
  number, a string, an array, \<^verbatim>\<open>null\<close>), \<^verbatim>\<open>_parse_suggestion\<close> returns that value as it
  is, not the fallback object. \<^verbatim>\<open>.get("confidence")\<close> is defined on objects only: on such
  a value it raises \<^verbatim>\<open>AttributeError\<close>, so a run of \<^verbatim>\<open>process_row\<close> whose generator
  replies with this text ends with \<^verbatim>\<open>AttributeError\<close> and writes no cleaning result.
\<close>

theorem parse_suggestion_non_object:
  assumes loads: "json_loads env s = Inr v"
    and non_object: "\<forall>dct. v \<noteq> JObject dct"
    and embedded: "model_encode env (json_dumps (float_repr env) row) = Inr emb"
    and saved: "embedding_commit_fault env = None"
    and reply: "\<forall>prompt. generate_content env prompt = Inr s"
  shows "parse_suggestion env s = Inr v
       \<and> parse_suggestion env s \<noteq> Inr (fallback s)
       \<and> dict_get v ''confidence'' = Inl AttributeError
       \<and> (\<exists>c. dict_get u ''confidence'' = Inr c) = (\<exists>dct. u = JObject dct)
       \<and> fst (process_row env w tenant_id dataset_id row) = Inl AttributeError
       \<and> cleaning_results (snd (process_row env w tenant_id dataset_id row)) = cleaning_results w"
proof -
  have parsed: "parse_suggestion env s = Inr v"
    using loads by (simp add: parse_suggestion_def)
  have not_fallback: "v \<noteq> fallback s"
    using non_object by (simp add: fallback_def)
  have no_get: "dict_get v ''confidence'' = Inl AttributeError"
    using non_object by (cases v) (simp_all add: dict_get_def)
  define row_text where "row_text = json_dumps (float_repr env) row"
  define w2 where "w2 = w
      \<lparr>events := events w @ [EncodeCall row_text],
       tenant_embeddings := tenant_embeddings w
         @ [\<lparr>te_id = Suc (length (tenant_embeddings w)), te_tenant_id = tenant_id,
             te_content = row_text, te_embedding = emb\<rparr>]\<rparr>"
  obtain contents w3 where retrieved:
    "retrieve_similar env w2 tenant_id emb 3 = (Inr contents, w3)"
    and tables3: "cleaning_results w3 = cleaning_results w2"
    using retrieve_similar_frame by blast
  have tables: "cleaning_results w2 = cleaning_results w"
    by (simp add: w2_def)
  have run: "process_row_try env w tenant_id dataset_id row =
      (Inl AttributeError,
       w3\<lparr>events := events w3
            @ [GenerateCall (user_message
                 (if contents \<noteq> [] then str_join ''\<newline>---\<newline>'' contents
                  else ''No previous examples available.'') row_text)]\<rparr>)"
    using embedded saved reply parsed no_get retrieved
    by (simp add: process_row_try_def row_text_def [symmetric] generate_embedding_def
        save_embedding_def w2_def [symmetric] generate_cleaning_suggestion_def Let_def)
  show ?thesis
    using parsed not_fallback no_get tables tables3
    by (simp add: process_row_def run log_error_def dict_get_defined_iff)
qed

theorem parse_suggestion_non_object_witness:
  "json_loads bare_number_env ''42'' = Inr (JInt 42)
   \<and> (\<forall>dct. JInt 42 \<noteq> JObject dct)
   \<and> model_encode bare_number_env (json_dumps (float_repr bare_number_env) scenario_row)
       = Inr [1, 0]
   \<and> embedding_commit_fault bare_number_env = None
   \<and> (\<forall>prompt. generate_content bare_number_env prompt = Inr ''42'')
   \<and> parse_suggestion bare_number_env ''42'' = Inr (JInt 42)
   \<and> parse_suggestion bare_number_env ''42'' \<noteq> Inr (fallback ''42'')
   \<and> dict_get (JInt 42) ''confidence'' = Inl AttributeError
   \<and> fst (process_row bare_number_env empty_world ''t1'' 7 scenario_row) = Inl AttributeError
   \<and> cleaning_results (snd (process_row bare_number_env empty_world ''t1'' 7 scenario_row)) = []"
proof -
  have h1: "json_loads bare_number_env ''42'' = Inr (JInt 42)"
    by (simp add: bare_number_env_def scenario_env_def loads_table_def scenario_reply_def)
  have h2: "\<forall>dct. JInt 42 \<noteq> JObject dct"
    by simp
  have h3: "model_encode bare_number_env (json_dumps (float_repr bare_number_env) scenario_row)
      = Inr [1, 0]"
    by (simp add: bare_number_env_def scenario_env_def)
  have h4: "embedding_commit_fault bare_number_env = None"
    by (simp add: bare_number_env_def scenario_env_def)
  have h5: "\<forall>prompt. generate_content bare_number_env prompt = Inr ''42''"
    by (simp add: bare_number_env_def)
  show ?thesis
    using h1 h3 h4 h5 parse_suggestion_non_object [OF h1 h2 h3 h4 h5,
      where u = "JInt 42" and w = empty_world and tenant_id = "''t1''" and dataset_id = 7]
    by (simp add: empty_world_def fallback_def)
qed

subsection \<open>The normalizer on text that does not parse\<close>









subsection \<open>Similarity and ranking\<close>

text \<open>On vectors of one length \<^verbatim>\<open>compute_cosine_similarity\<close> computes the similarity of the
  design; on vectors of two lengths it raises \<^verbatim>\<open>ValueError\<close>. The loop over the scan
  inherits both, and the sort is descending, stable and a permutation.\<close>

lemma dot_scaled:
  fixes a b :: "real list"
  assumes "length a = length b"
  shows "sum_list (map2 (*) (map (\<lambda>x. x / p) a) (map (\<lambda>x. x / r) b))
       = sum_list (map2 (*) a b) / (p * r)"
  using assms
  by (induction a b rule: list_induct2) (simp_all add: add_divide_distrib)

lemma compute_cosine_similarity_same_length:
  "length vec1 = length vec2 \<Longrightarrow>
     compute_cosine_similarity vec1 vec2 = Inr (spec_sim vec1 vec2)"
  by (simp add: compute_cosine_similarity_def np_dot_def spec_sim_def dot_scaled)

lemma compute_cosine_similarity_mismatch:
  "length vec1 \<noteq> length vec2 \<Longrightarrow> compute_cosine_similarity vec1 vec2 = Inl ValueError"
  by (simp add: compute_cosine_similarity_def np_dot_def)


lemma similarities_mismatch:
  "\<exists>cv \<in> set rows. length (snd cv) \<noteq> length q \<Longrightarrow> similarities q rows = Inl ValueError"
proof (induction rows)
  case Nil
  then show ?case by simp
next
  case (Cons cv rows)
  obtain c v where cv: "cv = (c, v)" by (cases cv)
  show ?case
  proof (cases "length v = length q")
    case True
    with Cons.prems cv have "\<exists>cv \<in> set rows. length (snd cv) \<noteq> length q" by simp
    with Cons.IH have "similarities q rows = Inl ValueError" by simp
    moreover from True have "compute_cosine_similarity q v = Inr (spec_sim q v)"
      by (simp add: compute_cosine_similarity_same_length)
    ultimately show ?thesis by (simp add: cv)
  next
    case False
    then have "compute_cosine_similarity q v = Inl ValueError"
      by (simp add: compute_cosine_similarity_mismatch)
    then show ?thesis by (simp add: cv)
  qed
qed




lemma stored_world_scan:
  "tenant_scan stored_world ''t1'' =
     [(''a'', [0, 1]), (''b'', [1, 0]), (''c'', [0, 1]), (''d'', [1, 0])]"
  by (simp add: tenant_scan_def stored_world_def)



text \<open>
  Claim C3, as amended. \<^verbatim>\<open>retrieve_similar\<close> has no \<^verbatim>\<open>DimensionMismatchError\<close>: the
  \<^verbatim>\<open>ValueError\<close> that \<^verbatim>\<open>np.dot\<close> raises on the first stored vector of another length
  is caught by \<^verbatim>\<open>except Exception\<close>, logged, and answered with the empty list. For every
  query and tenant with at least one stored vector of another length (and a scan that
  succeeds), the call returns \<open>[]\<close> and logs the \<^verbatim>\<open>ValueError\<close>; it does not raise.
  The counterexample is a query of length 2 against a tenant whose one vector has
  length 3.
\<close>

theorem retrieve_similar_dimension_mismatch:
  assumes "embedding_query_fault env = None"
    and "\<exists>cv \<in> set (tenant_scan w tenant_id). length (snd cv) \<noteq> length q"
  shows "retrieve_similar env w tenant_id q top_k
       = (Inr [], log_error ''retrieve_similar'' ValueError w)"
proof -
  from assms(2) have "similarities q (tenant_scan w tenant_id) = Inl ValueError"
    by (rule similarities_mismatch)
  moreover from assms(2) have "tenant_scan w tenant_id \<noteq> []"
    by auto
  ultimately show ?thesis
    using assms(1) by (simp add: retrieve_similar_def retrieve_similar_try_def)
qed

theorem retrieve_similar_dimension_mismatch_witness:
  "embedding_query_fault scenario_env = None
   \<and> (\<exists>cv \<in> set (tenant_scan stored_world ''t1''). length (snd cv) \<noteq> length [1, 0, 0 :: real])
   \<and> retrieve_similar scenario_env stored_world ''t1'' [1, 0, 0] 3
       = (Inr [], log_error ''retrieve_similar'' ValueError stored_world)"
proof -
  have h1: "embedding_query_fault scenario_env = None"
    by (simp add: scenario_env_def)
  have h2: "\<exists>cv \<in> set (tenant_scan stored_world ''t1''). length (snd cv) \<noteq> length [1, 0, 0 :: real]"
    by (simp add: stored_world_scan)
  from h1 h2 retrieve_similar_dimension_mismatch [OF h1 h2, of 3] show ?thesis
    by (intro conjI) assumption+
qed

theorem retrieve_similar_dimension_mismatch_counterexample:
  "fst (retrieve_similar scenario_env stored_world ''t2'' [1, 0] 3) = Inr []
   \<and> events (snd (retrieve_similar scenario_env stored_world ''t2'' [1, 0] 3))
       = [ErrorLogged ''retrieve_similar'' ValueError]"
  by (simp add: retrieve_similar_def retrieve_similar_try_def scenario_env_def tenant_scan_def
      stored_world_def compute_cosine_similarity_def np_dot_def log_error_def)

text \<open>
  Claim C9. Tenant isolation as noninterference: two worlds that hold the same rows of
  tenant \<open>t\<close>, in the same order, give \<^verbatim>\<open>retrieve_similar\<close> for \<open>t\<close> the same
  result, whatever their other rows are. Adding, removing or changing rows of other
  tenants keeps the rows of \<open>t\<close>, so none of it changes the result. The witness adds a
  row of a third tenant and rewrites the row of a second one.
\<close>

theorem retrieve_similar_tenant_isolation:
  assumes "filter (\<lambda>r. te_tenant_id r = tenant_id) (tenant_embeddings w')
         = filter (\<lambda>r. te_tenant_id r = tenant_id) (tenant_embeddings w)"
  shows "fst (retrieve_similar env w' tenant_id q top_k)
       = fst (retrieve_similar env w tenant_id q top_k)"
proof -
  have "tenant_scan w' tenant_id = tenant_scan w tenant_id"
    using assms by (simp add: tenant_scan_def)
  then have "retrieve_similar_try env w' tenant_id q top_k
           = retrieve_similar_try env w tenant_id q top_k"
    by (simp add: retrieve_similar_try_def split: option.splits)
  then show ?thesis
    by (simp add: retrieve_similar_def split: sum.splits)
qed

theorem retrieve_similar_tenant_isolation_witness:
  "filter (\<lambda>r. te_tenant_id r = ''t1'') (tenant_embeddings other_tenants_changed)
     = filter (\<lambda>r. te_tenant_id r = ''t1'') (tenant_embeddings stored_world)
   \<and> fst (retrieve_similar scenario_env other_tenants_changed ''t1'' [1, 0] 2)
     = fst (retrieve_similar scenario_env stored_world ''t1'' [1, 0] 2)"
proof -
  have h: "filter (\<lambda>r. te_tenant_id r = ''t1'') (tenant_embeddings other_tenants_changed)
     = filter (\<lambda>r. te_tenant_id r = ''t1'') (tenant_embeddings stored_world)"
    by (simp add: other_tenants_changed_def stored_world_def)
  from h retrieve_similar_tenant_isolation [OF h, of scenario_env "[1, 0]" 2] show ?thesis
    by (intro conjI) assumption+
qed

subsection \<open>The context of the first row of a tenant\<close>

text \<open>The prompt determines its context, the serialised row is never the placeholder,
  and a tenant's first row is retrieved right after it is appended.\<close>

lemma user_message_context_inj:
  "user_message c1 r = user_message c2 r \<Longrightarrow> c1 = c2"
  by (simp add: user_message_def)

lemma json_dumps_not_placeholder:
  "json_dumps fr row \<noteq> ''No previous examples available.''"
  by (simp add: json_dumps_def)

lemma own_row_retrieved:
  assumes "tenant_scan w tenant_id = []"
    and "embedding_query_fault env = None"
  shows "retrieve_similar env
           (w\<lparr>events := es,
              tenant_embeddings := tenant_embeddings w
                @ [\<lparr>te_id = n, te_tenant_id = tenant_id, te_content = content,
                    te_embedding = v\<rparr>]\<rparr>)
           tenant_id v 3
       = (Inr [content],
          w\<lparr>events := es,
            tenant_embeddings := tenant_embeddings w
              @ [\<lparr>te_id = n, te_tenant_id = tenant_id, te_content = content,
                  te_embedding = v\<rparr>]\<rparr>)"
proof -
  let ?w2 = "w\<lparr>events := es,
            tenant_embeddings := tenant_embeddings w
              @ [\<lparr>te_id = n, te_tenant_id = tenant_id, te_content = content,
                  te_embedding = v\<rparr>]\<rparr>"
  have scan: "tenant_scan ?w2 tenant_id = [(content, v)]"
    using assms(1) by (simp add: tenant_scan_def)
  have "compute_cosine_similarity v v = Inr (spec_sim v v)"
    by (simp add: compute_cosine_similarity_same_length)
  then have "similarities v [(content, v)] = Inr [(content, spec_sim v v)]"
    by simp
  then show ?thesis
    using assms(2) scan
    by (simp add: retrieve_similar_def retrieve_similar_try_def sort_reverse_def slice_to_def)
qed

text \<open>
  Claim C1, as amended. \<^verbatim>\<open>process_row\<close> appends the embedding (step 3) before it
  retrieves (step 4), and the retrieval excludes nothing. So for every tenant with no
  stored embedding, when the embedding and its append succeed and the scan does not fail,
  the retrieval finds the row just appended, and the generator prompt is built with the
  row's own serialised text as its context. That prompt is not the prompt with the
  placeholder \<^verbatim>\<open>No previous examples available.\<close>
  The counterexample is the scenario of the design document: tenant \<^verbatim>\<open>t1\<close>, no stored
  embedding, the row \<^verbatim>\<open>{"name": "Jon", "age": ""}\<close>.
\<close>

theorem process_row_first_row_context:
  assumes no_prior: "tenant_scan w tenant_id = []"
    and embedded: "model_encode env (json_dumps (float_repr env) row) = Inr v"
    and saved: "embedding_commit_fault env = None"
    and scan_ok: "embedding_query_fault env = None"
  shows "(\<exists>rest. events (snd (process_row env w tenant_id dataset_id row)) =
            events w
            @ [EncodeCall (json_dumps (float_repr env) row),
               GenerateCall (user_message (json_dumps (float_repr env) row)
                               (json_dumps (float_repr env) row))]
            @ rest)
       \<and> user_message (json_dumps (float_repr env) row) (json_dumps (float_repr env) row)
            \<noteq> user_message ''No previous examples available.''
                (json_dumps (float_repr env) row)"
proof -
  define row_text where "row_text = json_dumps (float_repr env) row"
  define w2 where "w2 = w
      \<lparr>events := events w @ [EncodeCall row_text],
       tenant_embeddings := tenant_embeddings w
         @ [\<lparr>te_id = Suc (length (tenant_embeddings w)), te_tenant_id = tenant_id,
             te_content = row_text, te_embedding = v\<rparr>]\<rparr>"
  have retrieved: "retrieve_similar env w2 tenant_id v 3 = (Inr [row_text], w2)"
    unfolding w2_def using no_prior scan_ok by (rule own_row_retrieved)
  have ev2: "events w2 = events w @ [EncodeCall row_text]"
    by (simp add: w2_def)
  have "\<exists>rest. events (snd (process_row_try env w tenant_id dataset_id row)) =
      events w @ [EncodeCall row_text, GenerateCall (user_message row_text row_text)] @ rest"
    using embedded saved retrieved ev2
    by (simp add: process_row_try_def row_text_def [symmetric] generate_embedding_def
        save_embedding_def w2_def [symmetric] generate_cleaning_suggestion_def Let_def
        log_error_def split: sum.splits option.splits)
  then have "\<exists>rest. events (snd (process_row env w tenant_id dataset_id row)) =
      events w @ [EncodeCall row_text, GenerateCall (user_message row_text row_text)] @ rest"
    by (auto simp add: process_row_def log_error_def split: prod.splits sum.splits)
  moreover have "user_message row_text row_text
      \<noteq> user_message ''No previous examples available.'' row_text"
    using user_message_context_inj [of row_text row_text "''No previous examples available.''"]
      json_dumps_not_placeholder [of "float_repr env" row]
    by (auto simp add: row_text_def)
  ultimately show ?thesis
    by (simp add: row_text_def)
qed

theorem process_row_first_row_context_witness:
  "tenant_scan stored_world ''t9'' = []
   \<and> model_encode scenario_env (json_dumps (float_repr scenario_env) scenario_row) = Inr [1, 0]
   \<and> embedding_commit_fault scenario_env = None
   \<and> embedding_query_fault scenario_env = None
   \<and> (\<exists>rest. events (snd (process_row scenario_env stored_world ''t9'' 7 scenario_row)) =
            events stored_world
            @ [EncodeCall (json_dumps (float_repr scenario_env) scenario_row),
               GenerateCall (user_message (json_dumps (float_repr scenario_env) scenario_row)
                               (json_dumps (float_repr scenario_env) scenario_row))]
            @ rest)
   \<and> user_message (json_dumps (float_repr scenario_env) scenario_row)
         (json_dumps (float_repr scenario_env) scenario_row)
       \<noteq> user_message ''No previous examples available.''
           (json_dumps (float_repr scenario_env) scenario_row)"
proof -
  have h1: "tenant_scan stored_world ''t9'' = []"
    by (simp add: tenant_scan_def stored_world_def)
  have h2: "model_encode scenario_env (json_dumps (float_repr scenario_env) scenario_row)
      = Inr [1, 0]"
    by (simp add: scenario_env_def)
  have h3: "embedding_commit_fault scenario_env = None"
    by (simp add: scenario_env_def)
  have h4: "embedding_query_fault scenario_env = None"
    by (simp add: scenario_env_def)
  from h1 h2 h3 h4 process_row_first_row_context [OF h1 h2 h3 h4, of 7] show ?thesis
    by (intro conjI) (erule conjunct1 conjunct2 | assumption)+
qed

theorem process_row_first_row_context_counterexample:
  "tenant_scan empty_world ''t1'' = []
   \<and> events (snd (process_row scenario_env empty_world ''t1'' 7 scenario_row)) =
       [EncodeCall (json_dumps (float_repr scenario_env) scenario_row),
        GenerateCall (user_message (json_dumps (float_repr scenario_env) scenario_row)
                        (json_dumps (float_repr scenario_env) scenario_row))]
   \<and> GenerateCall (user_message ''No previous examples available.''
                      (json_dumps (float_repr scenario_env) scenario_row))
       \<notin> set (events (snd (process_row scenario_env empty_world ''t1'' 7 scenario_row)))"
proof -
  have scan: "tenant_scan empty_world ''t1'' = []"
    by (simp add: tenant_scan_def empty_world_def)
  have run: "events (snd (process_row scenario_env empty_world ''t1'' 7 scenario_row)) =
       [EncodeCall (json_dumps (float_repr scenario_env) scenario_row),
        GenerateCall (user_message (json_dumps (float_repr scenario_env) scenario_row)
                        (json_dumps (float_repr scenario_env) scenario_row))]"
    by (simp add: process_row_def process_row_try_def generate_embedding_def save_embedding_def
        retrieve_similar_def retrieve_similar_try_def tenant_scan_def
        compute_cosine_similarity_def np_dot_def linalg_norm_def sort_reverse_def slice_to_def
        log_error_def generate_cleaning_suggestion_def parse_suggestion_def dict_get_def Let_def
        scenario_env_def empty_world_def loads_table_def scenario_reply_def
        scenario_suggestion_def)
  have differ: "user_message ''No previous examples available.''
        (json_dumps (float_repr scenario_env) scenario_row)
      \<noteq> user_message (json_dumps (float_repr scenario_env) scenario_row)
        (json_dumps (float_repr scenario_env) scenario_row)"
    using user_message_context_inj json_dumps_not_placeholder by metis
  show ?thesis
    using scan differ by (simp add: run)
qed

subsection \<open>The serialised row\<close>

text \<open>\<^verbatim>\<open>retrieve_similar\<close> only adds to the trace.\<close>

lemma retrieve_similar_events:
  "\<exists>logged. events (snd (retrieve_similar env w tenant_id embedding top_k)) = events w @ logged"
  by (simp add: retrieve_similar_def log_error_def split: sum.splits)

text \<open>
  Claim C4, as amended. \<^verbatim>\<open>process_row\<close> serialises the row with
  \<^verbatim>\<open>json.dumps(row, indent=2)\<close>, without \<^verbatim>\<open>sort_keys\<close>: the text lists the items in the
  insertion order of the dict, so two rows with the same key-value pairs inserted in
  different orders can serialise differently. That one text is the input of the
  embedding model and, when the model answers and the append succeeds, the content
  stored in the vector store, next to the vector the model gave for it.
  The counterexample is the scenario row and the same row with its two keys swapped.
\<close>

theorem process_row_text_embedded_and_stored:
  assumes embedded: "model_encode env (json_dumps (float_repr env) row) = Inr v"
    and saved: "embedding_commit_fault env = None"
  shows "(\<exists>rest. events (snd (process_row env w tenant_id dataset_id row)) =
            events w @ EncodeCall (json_dumps (float_repr env) row) # rest)
       \<and> tenant_embeddings (snd (process_row env w tenant_id dataset_id row)) =
            tenant_embeddings w
            @ [\<lparr>te_id = Suc (length (tenant_embeddings w)), te_tenant_id = tenant_id,
                te_content = json_dumps (float_repr env) row, te_embedding = v\<rparr>]
       \<and> json_dumps (float_repr env) row =
            (if row = [] then ''{}''
             else ''{'' @ newline_indent 1
               @ str_join ('','' @ newline_indent 1)
                   (map (\<lambda>kv. encode_basestring_ascii (fst kv) @ '': ''
                                 @ iterencode (float_repr env) 1 (snd kv)) row)
               @ newline_indent 0 @ ''}'')"
proof -
  define row_text where "row_text = json_dumps (float_repr env) row"
  define w2 where "w2 = w
      \<lparr>events := events w @ [EncodeCall row_text],
       tenant_embeddings := tenant_embeddings w
         @ [\<lparr>te_id = Suc (length (tenant_embeddings w)), te_tenant_id = tenant_id,
             te_content = row_text, te_embedding = v\<rparr>]\<rparr>"
  obtain contents w3 where retrieved:
    "retrieve_similar env w2 tenant_id v 3 = (Inr contents, w3)"
    and table3: "tenant_embeddings w3 = tenant_embeddings w2"
    using retrieve_similar_frame by blast
  obtain logged where events3: "events w3 = events w2 @ logged"
    using retrieve_similar_events [of env w2 tenant_id v 3] retrieved by auto
  have ev2: "events w2 = events w @ [EncodeCall row_text]"
    and table2: "tenant_embeddings w2 = tenant_embeddings w
         @ [\<lparr>te_id = Suc (length (tenant_embeddings w)), te_tenant_id = tenant_id,
             te_content = row_text, te_embedding = v\<rparr>]"
    by (simp_all add: w2_def)
  have try_events: "\<exists>rest. events (snd (process_row_try env w tenant_id dataset_id row)) =
      events w @ EncodeCall row_text # rest"
    using embedded saved retrieved ev2 events3
    by (simp add: process_row_try_def row_text_def [symmetric] generate_embedding_def
        save_embedding_def w2_def [symmetric] generate_cleaning_suggestion_def Let_def
        log_error_def split: sum.splits option.splits)
  have try_table: "tenant_embeddings (snd (process_row_try env w tenant_id dataset_id row)) =
      tenant_embeddings w2"
    using embedded saved retrieved table3
    by (simp add: process_row_try_def row_text_def [symmetric] generate_embedding_def
        save_embedding_def w2_def [symmetric] generate_cleaning_suggestion_def Let_def
        log_error_def split: sum.splits option.splits)
  have "\<exists>rest. events (snd (process_row env w tenant_id dataset_id row)) =
      events w @ EncodeCall row_text # rest"
    using try_events
    by (auto simp add: process_row_def log_error_def split: prod.splits sum.splits)
  moreover have "tenant_embeddings (snd (process_row env w tenant_id dataset_id row)) =
      tenant_embeddings w2"
    using try_table
    by (auto simp add: process_row_def log_error_def split: prod.splits sum.splits)
  moreover have "row_text =
            (if row = [] then ''{}''
             else ''{'' @ newline_indent 1
               @ str_join ('','' @ newline_indent 1)
                   (map (\<lambda>kv. encode_basestring_ascii (fst kv) @ '': ''
                                 @ iterencode (float_repr env) 1 (snd kv)) row)
               @ newline_indent 0 @ ''}'')"
    by (simp add: row_text_def json_dumps_def)
  ultimately show ?thesis
    using table2 by (simp add: row_text_def)
qed

theorem process_row_text_embedded_and_stored_witness:
  "model_encode scenario_env (json_dumps (float_repr scenario_env) (rev scenario_row)) = Inr [1, 0]
   \<and> embedding_commit_fault scenario_env = None
   \<and> (\<exists>rest. events (snd (process_row scenario_env stored_world ''t1'' 7 (rev scenario_row))) =
         events stored_world
         @ EncodeCall (json_dumps (float_repr scenario_env) (rev scenario_row)) # rest)
   \<and> tenant_embeddings (snd (process_row scenario_env stored_world ''t1'' 7 (rev scenario_row))) =
       tenant_embeddings stored_world
       @ [\<lparr>te_id = Suc (length (tenant_embeddings stored_world)), te_tenant_id = ''t1'',
           te_content = json_dumps (float_repr scenario_env) (rev scenario_row),
           te_embedding = [1, 0]\<rparr>]"
proof -
  have h1: "model_encode scenario_env (json_dumps (float_repr scenario_env) (rev scenario_row))
      = Inr [1, 0]"
    by (simp add: scenario_env_def)
  have h2: "embedding_commit_fault scenario_env = None"
    by (simp add: scenario_env_def)
  from h1 h2 process_row_text_embedded_and_stored [OF h1 h2, of stored_world "''t1''" 7]
  show ?thesis
    by (intro conjI) (erule conjunct1 conjunct2 | assumption | elim conjE)+
qed

theorem json_dumps_key_order_counterexample:
  \<open>set (rev scenario_row) = set scenario_row
   \<and> distinct (map fst scenario_row)
   \<and> json_dumps (float_repr scenario_env) scenario_row
       = ''{\<newline>  "name": "Jon",\<newline>  "age": ""\<newline>}''
   \<and> json_dumps (float_repr scenario_env) (rev scenario_row)
       = ''{\<newline>  "age": "",\<newline>  "name": "Jon"\<newline>}''
   \<and> json_dumps (float_repr scenario_env) (rev scenario_row)
       \<noteq> json_dumps (float_repr scenario_env) scenario_row\<close>
proof -
  have same_pairs: "set (rev scenario_row) = set scenario_row"
    by simp
  have keys: "distinct (map fst scenario_row)"
    by (simp add: scenario_row_def)
  have one: \<open>json_dumps (float_repr scenario_env) scenario_row
       = ''{\<newline>  "name": "Jon",\<newline>  "age": ""\<newline>}''\<close>
    by (simp add: json_dumps_def scenario_row_def encode_basestring_ascii_def escape_char_def
        newline_indent_def eval_nat_numeral)
  have other: \<open>json_dumps (float_repr scenario_env) (rev scenario_row)
       = ''{\<newline>  "age": "",\<newline>  "name": "Jon"\<newline>}''\<close>
    by (simp add: json_dumps_def scenario_row_def encode_basestring_ascii_def escape_char_def
        newline_indent_def eval_nat_numeral)
  have differ: "json_dumps (float_repr scenario_env) (rev scenario_row)
       \<noteq> json_dumps (float_repr scenario_env) scenario_row"
    by (simp add: one other)
  from same_pairs keys one other differ show ?thesis
    by (intro conjI) assumption+
qed

subsection \<open>A run that returns\<close>

text \<open>
  Steps 7 and 8 of \<^verbatim>\<open>process_row\<close>. Whenever \<^verbatim>\<open>process_row\<close> returns a result, its
  status is \<^verbatim>\<open>processed\<close>, and exactly one cleaning result was appended: it carries the
  returned id, the status \<^verbatim>\<open>processed\<close>, the caller's tenant, dataset and row, the
  returned suggestion, and as confidence what \<^verbatim>\<open>.get("confidence")\<close> gives on that
  suggestion. The witness is the scenario of the design document, with confidence 0.9.
\<close>

theorem process_row_success_persists:
  assumes ok: "fst (process_row env w tenant_id dataset_id row) = Inr r"
  shows "pr_status r = ''processed''
       \<and> (\<exists>c. cleaning_results (snd (process_row env w tenant_id dataset_id row))
                 = cleaning_results w @ [c]
              \<and> cr_id c = pr_id r \<and> cr_status c = ''processed''
              \<and> cr_tenant_id c = tenant_id \<and> cr_dataset_id c = dataset_id
              \<and> cr_row_data c = row \<and> cr_ai_suggestion c = pr_suggestion r
              \<and> dict_get (pr_suggestion r) ''confidence'' = Inr (cr_confidence c))"
proof -
  define row_text where "row_text = json_dumps (float_repr env) row"
  from ok obtain w' where try_ok: "process_row_try env w tenant_id dataset_id row = (Inr r, w')"
    and final: "snd (process_row env w tenant_id dataset_id row) = w'"
    by (auto simp add: process_row_def split: prod.splits sum.splits)
  from try_ok obtain v where embedded: "model_encode env row_text = Inr v"
    by (auto simp add: process_row_try_def row_text_def generate_embedding_def Let_def
        split: sum.splits)
  from try_ok embedded have saved: "embedding_commit_fault env = None"
    by (auto simp add: process_row_try_def row_text_def generate_embedding_def
        save_embedding_def Let_def split: option.splits)
  define w2 where "w2 = w
      \<lparr>events := events w @ [EncodeCall row_text],
       tenant_embeddings := tenant_embeddings w
         @ [\<lparr>te_id = Suc (length (tenant_embeddings w)), te_tenant_id = tenant_id,
             te_content = row_text, te_embedding = v\<rparr>]\<rparr>"
  obtain contents w3 where retrieved:
    "retrieve_similar env w2 tenant_id v 3 = (Inr contents, w3)"
    and results3: "cleaning_results w3 = cleaning_results w2"
    using retrieve_similar_frame by blast
  have results2: "cleaning_results w2 = cleaning_results w"
    by (simp add: w2_def)
  from try_ok embedded saved retrieved results3 results2 show ?thesis
    unfolding final
    by (auto simp add: process_row_try_def row_text_def [symmetric] generate_embedding_def
        save_embedding_def w2_def [symmetric] generate_cleaning_suggestion_def Let_def
        log_error_def split: sum.splits option.splits)
qed

theorem process_row_success_persists_witness:
  "fst (process_row scenario_env empty_world ''t1'' 7 scenario_row)
     = Inr \<lparr>pr_id = 1, pr_status = ''processed'', pr_suggestion = scenario_suggestion\<rparr>
   \<and> pr_status \<lparr>pr_id = 1, pr_status = ''processed'', pr_suggestion = scenario_suggestion\<rparr>
     = ''processed''
   \<and> dict_get scenario_suggestion ''confidence'' = Inr (JFloat (9 / 10))
   \<and> (\<exists>c. cleaning_results (snd (process_row scenario_env empty_world ''t1'' 7 scenario_row))
              = cleaning_results empty_world @ [c]
          \<and> cr_id c = 1 \<and> cr_status c = ''processed'' \<and> cr_confidence c = JFloat (9 / 10))"
proof -
  have h: "fst (process_row scenario_env empty_world ''t1'' 7 scenario_row)
     = Inr \<lparr>pr_id = 1, pr_status = ''processed'', pr_suggestion = scenario_suggestion\<rparr>"
    by (simp add: process_row_def process_row_try_def generate_embedding_def save_embedding_def
        retrieve_similar_def retrieve_similar_try_def tenant_scan_def
        compute_cosine_similarity_def np_dot_def linalg_norm_def sort_reverse_def slice_to_def
        log_error_def generate_cleaning_suggestion_def parse_suggestion_def dict_get_def Let_def
        scenario_env_def empty_world_def loads_table_def scenario_reply_def
        scenario_suggestion_def)
  have conf: "dict_get scenario_suggestion ''confidence'' = Inr (JFloat (9 / 10))"
    by (simp add: dict_get_def scenario_suggestion_def)
  from process_row_success_persists [OF h] conf
  have "\<exists>c. cleaning_results (snd (process_row scenario_env empty_world ''t1'' 7 scenario_row))
              = cleaning_results empty_world @ [c]
          \<and> cr_id c = 1 \<and> cr_status c = ''processed'' \<and> cr_confidence c = JFloat (9 / 10)"
    by auto
  with h conf show ?thesis
    by simp
qed

end
